theory Spec2Isabelle
  imports Main "HOL-Library.AList"
begin

section \<open>Python values, exceptions and string helpers\<close>

text \<open>
  Modelled from the spec: the classes of the module \<^verbatim>\<open>errors\<close>, which is not among the
  sources. The code raises \<^verbatim>\<open>errors.APIError\<close>; section 7 of the specification also names
  a \<^verbatim>\<open>ConfigurationError\<close>. \<^verbatim>\<open>ValueError\<close> and \<^verbatim>\<open>TypeError\<close> are the built-in classes
  that \<^verbatim>\<open>igdbapi/core.py\<close> raises itself or makes the interpreter raise. An exception is
  its class and its message.
\<close>

datatype exn_class = ValueError | TypeError | APIError | ConfigurationError

datatype exn = Exn (exn_class: exn_class) (exn_msg: string)

text \<open>
  The values a decoded response is made of. Floats are kept opaque (type \<open>'f\<close>).
  \<open>PNamespace\<close> is an \<^verbatim>\<open>argparse.Namespace\<close>: its attributes in insertion order.
\<close>

datatype 'f pyval =
    PNone
  | PBool bool
  | PInt int
  | PFloat 'f
  | PStr string
  | PList "'f pyval list"
  | PNamespace "(string \<times> 'f pyval) list"

text \<open>\<^verbatim>\<open>sep.join(xs)\<close> on a list of strings.\<close>

fun join :: "string \<Rightarrow> string list \<Rightarrow> string" where
  "join sep [] = []"
| "join sep [x] = x"
| "join sep (x # y # ys) = x @ sep @ join sep (y # ys)"

text \<open>Decimal text of an integer, as \<^verbatim>\<open>str\<close> and \<^verbatim>\<open>format\<close> print it.\<close>

definition digit_char :: "nat \<Rightarrow> char" where
  "digit_char d = ''0123456789'' ! d"

fun nat_str :: "nat \<Rightarrow> string" where
  "nat_str n = (if n < 10 then [digit_char n] else nat_str (n div 10) @ [digit_char (n mod 10)])"

declare nat_str.simps [simp del]

definition int_str :: "int \<Rightarrow> string" where
  "int_str i = (if i < 0 then ''-'' @ nat_str (nat (- i)) else nat_str (nat i))"

text \<open>The double quote character, written by its code.\<close>

definition dquote :: string where
  "dquote = [CHR 0x22]"

section \<open>The query builder: the clause list of \<^verbatim>\<open>APIObject.find\<close>\<close>

text \<open>
  The keyword arguments of \<^verbatim>\<open>find\<close>. \<^verbatim>\<open>fields\<close> is a string or a list
  (\<^verbatim>\<open>type(fields) is list\<close>); \<^verbatim>\<open>entity\<close> and \<^verbatim>\<open>entity_id\<close> default to
  \<^verbatim>\<open>None\<close>. The arguments \<^verbatim>\<open>fields\<close>, \<^verbatim>\<open>sort\<close> and \<^verbatim>\<open>one\<close> are named
  \<open>fields_kw\<close>, \<open>sort_kw\<close> and \<open>one_kw\<close> here.
\<close>

datatype fields_arg = FieldsStr string | FieldsList "string list"

record find_args =
  entity :: "string option"
  fields_kw :: fields_arg
  exclude :: string
  search :: string
  entity_id :: "int option"
  name :: string
  slug :: string
  filters :: string
  limit :: int
  sort_kw :: string
  one_kw :: bool

definition default_args :: find_args where
  "default_args =
     \<lparr> entity = None, fields_kw = FieldsStr ''*'', exclude = '''', search = '''',
       entity_id = None, name = '''', slug = '''', filters = '''', limit = 0,
       sort_kw = '''', one_kw = False \<rparr>"

text \<open>Lines 156--157: a list of fields is joined by commas, a string is kept.\<close>

definition fields_text :: "fields_arg \<Rightarrow> string" where
  "fields_text f = (case f of FieldsList fs \<Rightarrow> join '','' fs | FieldsStr s \<Rightarrow> s)"

text \<open>
  Lines 156--181 of \<^verbatim>\<open>find\<close>: the local list \<^verbatim>\<open>data\<close>, grown by \<^verbatim>\<open>append\<close>, and the
  lines written by \<^verbatim>\<open>print\<close>. A string or an integer is tested for truth: non-empty,
  non-zero.
\<close>

definition find_data :: "find_args \<Rightarrow> string list \<times> string list" where
  "find_data a =
    (let data = [''fields '' @ fields_text (fields_kw a)];
         data = (if exclude a \<noteq> [] then data @ [''exclude '' @ exclude a] else data);
         data = (if search a \<noteq> [] then data @ [''search '' @ dquote @ search a @ dquote]
                 else data);
         data = (case entity_id a of
                   Some i \<Rightarrow> data @ [''where id = '' @ int_str i]
                 | None \<Rightarrow> data);
         data = (if name a \<noteq> [] then data @ [''where name = '' @ dquote @ name a @ dquote]
                 else data);
         data = (if slug a \<noteq> [] then data @ [''where slug = '' @ dquote @ slug a @ dquote]
                 else data);
         data = (if filters a \<noteq> [] then data @ [filters a] else data);
         (data, out) =
           (if limit a \<noteq> 0 then
              (if limit a > 500
               then (data @ [''limit '' @ int_str 500],
                     [''Limit ('' @ int_str (limit a) @ '') set to maximum allowed (500).''])
               else (data @ [''limit '' @ int_str (limit a)], []))
            else (data, []));
         data = (if sort_kw a \<noteq> [] then data @ [''sort '' @ sort_kw a] else data)
     in (data, out))"

section \<open>The client: \<^verbatim>\<open>APIClient\<close>\<close>

text \<open>
  What \<^verbatim>\<open>requests.post\<close> is given, and what the code reads of its answer. The transport,
  \<^verbatim>\<open>errors.check\<close> (not among the sources) and the JSON reader are parameters of the model:
  \<open>post\<close> answers a request or raises, \<open>check\<close> raises or returns, \<open>loads\<close> is
  \<^verbatim>\<open>json.loads\<close> before any \<^verbatim>\<open>object_hook\<close>.
\<close>

record request =
  url :: string
  body :: string
  req_headers :: "(string \<times> string) list"
  allow_redirects :: bool

record http_response =
  status_code :: int
  resp_text :: string

datatype 'f json =
    JNull
  | JBool bool
  | JInt int
  | JFloat 'f
  | JStr string
  | JArr "'f json list"
  | JObj "(string \<times> 'f json) list"

record 'f env =
  post :: "request \<Rightarrow> exn + http_response"
  check :: "http_response \<Rightarrow> exn option"
  loads :: "string \<Rightarrow> exn + 'f json"

definition V3_ENDPOINT :: string where
  "V3_ENDPOINT = ''https://api-v3.igdb.com/''"

record APIClient =
  api_key :: string
  client_command :: "string option"
  client_data :: "string option"
  headers :: "(string \<times> string) list"

text \<open>
  \<^verbatim>\<open>APIClient.__init__\<close>: the attributes are assigned first, then a missing key raises.
\<close>

definition APIClient_init :: "string option \<Rightarrow> exn + APIClient" where
  "APIClient_init key =
    (case key of
       None \<Rightarrow> Inl (Exn ValueError ''You must set an API key.'')
     | Some k \<Rightarrow>
         Inr \<lparr> api_key = k, client_command = None, client_data = None,
               headers = [(''Accept'', ''application/json; charset=UTF-8''), (''user-key'', k)] \<rparr>)"

text \<open>\<^verbatim>\<open>APIClient.__str__\<close>, with \<^verbatim>\<open>None\<close> printed as Python prints it.\<close>

definition client_str :: "APIClient \<Rightarrow> string" where
  "client_str c =
     V3_ENDPOINT @ (case client_command c of None \<Rightarrow> ''None'' | Some cmd \<Rightarrow> cmd)"

record APIResponse =
  response :: string

text \<open>
  The outcome of \<^verbatim>\<open>call\<close>: the client as the call leaves it, the requests handed to the
  transport, and the value returned or the exception raised.
\<close>

record call_outcome =
  call_client :: APIClient
  call_sent :: "request list"
  call_result :: "exn + APIResponse"

definition call :: "'f env \<Rightarrow> APIClient \<Rightarrow> string \<Rightarrow> string list \<Rightarrow> call_outcome" where
  "call ev self command data =
    (let self = self\<lparr>client_command := Some command\<rparr>;
         base_url = client_str self;
         d = (if data \<noteq> [] then join ''; '' data @ '';'' else '''');
         self = self\<lparr>client_data := Some d\<rparr>;
         req = \<lparr> url = base_url, body = d, req_headers = headers self,
                 allow_redirects = False \<rparr>
     in \<lparr> call_client = self, call_sent = [req],
          call_result =
            (case post ev req of
               Inl e \<Rightarrow> Inl e
             | Inr r \<Rightarrow>
                 (case check ev r of
                    Some e \<Rightarrow> Inl e
                  | None \<Rightarrow> Inr \<lparr> response = resp_text r \<rparr>)) \<rparr>)"

section \<open>The response wrapper: \<^verbatim>\<open>APIResponse\<close>\<close>

text \<open>
  \<^verbatim>\<open>json.loads(data, object_hook=h)\<close> builds a \<^verbatim>\<open>dict\<close> from the pairs of every JSON
  object, innermost first, and replaces it by \<^verbatim>\<open>h(dict)\<close>. A \<^verbatim>\<open>dict\<close> is an association
  list in insertion order; a repeated key keeps its place and takes the later value.
\<close>

definition dict_of_pairs :: "(string \<times> 'v) list \<Rightarrow> (string \<times> 'v) list" where
  "dict_of_pairs ps = foldl (\<lambda>d (k, v). AList.update k v d) [] ps"

text \<open>The single quote character, written by its code.\<close>

definition squote :: string where
  "squote = [CHR 0x27]"

text \<open>
  \<^verbatim>\<open>_json_object_hook(d)\<close> is \<^verbatim>\<open>Namespace(**d)\<close>. \<^verbatim>\<open>Namespace.__init__(self, **kwargs)\<close>
  sets one attribute per keyword; a keyword named \<^verbatim>\<open>self\<close> collides with the bound first
  parameter and the interpreter raises \<^verbatim>\<open>TypeError\<close> (message of CPython 3.10 and later).
\<close>

definition self_error :: exn where
  "self_error =
     Exn TypeError
       (''Namespace.__init__() got multiple values for argument '' @ squote @ ''self''
          @ squote)"

definition json_object_hook :: "(string \<times> 'f pyval) list \<Rightarrow> exn + 'f pyval" where
  "json_object_hook d =
    (if ''self'' \<in> set (map fst d) then Inl self_error else Inr (PNamespace d))"

text \<open>The first exception of a sequence of computations, or all their values.\<close>

fun all_ok :: "('e + 'a) list \<Rightarrow> 'e + 'a list" where
  "all_ok [] = Inr []"
| "all_ok (x # xs) =
     (case x of
        Inl e \<Rightarrow> Inl e
      | Inr v \<Rightarrow> (case all_ok xs of Inl e \<Rightarrow> Inl e | Inr vs \<Rightarrow> Inr (v # vs)))"

fun with_key :: "string \<Rightarrow> 'e + 'a \<Rightarrow> 'e + (string \<times> 'a)" where
  "with_key k (Inl e) = Inl e"
| "with_key k (Inr v) = Inr (k, v)"

text \<open>
  What \<^verbatim>\<open>json.loads(data, object_hook=_json_object_hook)\<close> makes of a JSON value that the
  reader has accepted: scalars as they are, arrays as lists in their order, and every
  object, once its values are done, as the result of the hook on its \<^verbatim>\<open>dict\<close>. The first
  exception of a hook ends the decoding.
\<close>

fun hooked :: "'f json \<Rightarrow> exn + 'f pyval" where
  "hooked JNull = Inr PNone"
| "hooked (JBool b) = Inr (PBool b)"
| "hooked (JInt i) = Inr (PInt i)"
| "hooked (JFloat x) = Inr (PFloat x)"
| "hooked (JStr s) = Inr (PStr s)"
| "hooked (JArr xs) =
     (case all_ok (map hooked xs) of Inl e \<Rightarrow> Inl e | Inr vs \<Rightarrow> Inr (PList vs))"
| "hooked (JObj kvs) =
     (case all_ok (map (\<lambda>kv. with_key (fst kv) (hooked (snd kv))) kvs) of
        Inl e \<Rightarrow> Inl e
      | Inr ps \<Rightarrow> json_object_hook (dict_of_pairs ps))"

text \<open>
  \<^verbatim>\<open>json2obj\<close>, \<^verbatim>\<open>json_response\<close>, \<^verbatim>\<open>as_collection\<close> and \<^verbatim>\<open>as_single_result\<close>. A text
  the reader rejects raises the reader's exception.
\<close>

definition json2obj :: "'f env \<Rightarrow> string \<Rightarrow> exn + 'f pyval" where
  "json2obj ev data = (case loads ev data of Inl e \<Rightarrow> Inl e | Inr j \<Rightarrow> hooked j)"

definition json_response :: "'f env \<Rightarrow> APIResponse \<Rightarrow> exn + 'f pyval" where
  "json_response ev self = json2obj ev (response self)"

definition as_collection :: "'f env \<Rightarrow> APIResponse \<Rightarrow> exn + 'f pyval" where
  "as_collection ev self = json_response ev self"

definition as_single_result :: "'f env \<Rightarrow> APIResponse \<Rightarrow> exn + 'f pyval" where
  "as_single_result ev self =
    (case json_response ev self of
       Inl e \<Rightarrow> Inl e
     | Inr jr \<Rightarrow>
         (case jr of
            PList xs \<Rightarrow>
              (if xs = [] then Inr PNone
               else if length xs = 1 then Inr (xs ! 0)
               else Inl (Exn APIError
                      (''Expected single result, found '' @ int_str (int (length xs)))))
          | _ \<Rightarrow> Inr jr))"

text \<open>Attribute access on a decoded value: \<^verbatim>\<open>record.k\<close>, defined on a namespace.\<close>

definition getattr :: "'f pyval \<Rightarrow> string \<Rightarrow> 'f pyval option" where
  "getattr v k = (case v of PNamespace d \<Rightarrow> map_of d k | _ \<Rightarrow> None)"

section \<open>The entity base class: \<^verbatim>\<open>APIObject\<close>\<close>

text \<open>
  An instance carries the name of its concrete class, \<^verbatim>\<open>_command\<close> and \<^verbatim>\<open>_id\<close>.
  \<^verbatim>\<open>__init__\<close> sets both attributes to \<^verbatim>\<open>None\<close>; a subclass fills \<^verbatim>\<open>_id\<close> in.
\<close>

record APIObject =
  cls :: string
  obj_command :: "string option"
  obj_id :: "int option"

definition APIObject_init :: "string \<Rightarrow> APIObject" where
  "APIObject_init c = \<lparr> cls = c, obj_command = None, obj_id = None \<rparr>"

text \<open>
  \<^verbatim>\<open>__hash__\<close>, \<^verbatim>\<open>__eq__\<close> and \<^verbatim>\<open>__ne__\<close>. The built-in \<^verbatim>\<open>hash\<close> on the value of \<^verbatim>\<open>id\<close>
  is the parameter \<open>h\<close>.
\<close>

definition APIObject_hash :: "(int option \<Rightarrow> int) \<Rightarrow> APIObject \<Rightarrow> int" where
  "APIObject_hash h self = h (obj_id self)"

definition APIObject_eq :: "(int option \<Rightarrow> int) \<Rightarrow> APIObject \<Rightarrow> APIObject \<Rightarrow> bool" where
  "APIObject_eq h self other = (APIObject_hash h self = APIObject_hash h other)"

definition APIObject_ne :: "(int option \<Rightarrow> int) \<Rightarrow> APIObject \<Rightarrow> APIObject \<Rightarrow> bool" where
  "APIObject_ne h self other = (\<not> APIObject_eq h self other)"

text \<open>
  The outcome of \<^verbatim>\<open>find\<close> and of \<^verbatim>\<open>meta\<close>: the object and the client as the call leaves
  them, the lines printed, the requests sent, and the value returned or the exception raised.
  \<^verbatim>\<open>APIClient()\<close> is the process-wide instance; it is the parameter \<open>client\<close>.
\<close>

record 'f outcome =
  out_self :: APIObject
  out_client :: APIClient
  out_printed :: "string list"
  out_sent :: "request list"
  out_result :: "exn + 'f pyval"

definition find :: "'f env \<Rightarrow> APIClient \<Rightarrow> APIObject \<Rightarrow> find_args \<Rightarrow> 'f outcome" where
  "find ev client self a =
    (case entity a of
       None \<Rightarrow>
         \<lparr> out_self = self, out_client = client, out_printed = [], out_sent = [],
           out_result =
             Inl (Exn ValueError
               (''Plase specify entity ('' @ dquote @ ''game'' @ dquote @ '', '' @ dquote
                  @ ''platform'' @ dquote @ '', etc)'')) \<rparr>
     | Some e \<Rightarrow>
         (let self = self\<lparr>obj_command := Some (e @ ''/'')\<rparr>;
              (data, printed) = find_data a;
              query = call ev client (e @ ''/'') data
          in \<lparr> out_self = self, out_client = call_client query, out_printed = printed,
               out_sent = call_sent query,
               out_result =
                 (case call_result query of
                    Inl err \<Rightarrow> Inl err
                  | Inr r \<Rightarrow>
                      (if one_kw a then as_single_result ev r else as_collection ev r)) \<rparr>))"

definition find_one :: "'f env \<Rightarrow> APIClient \<Rightarrow> APIObject \<Rightarrow> find_args \<Rightarrow> 'f outcome" where
  "find_one ev client self a = find ev client self (a\<lparr>one_kw := True\<rparr>)"

text \<open>
  \<^verbatim>\<open>meta\<close>: \<^verbatim>\<open>self._command + '/meta'\<close> raises \<^verbatim>\<open>TypeError\<close> while \<^verbatim>\<open>_command\<close> is
  \<^verbatim>\<open>None\<close>; the empty \<^verbatim>\<open>dict\<close> passed as \<^verbatim>\<open>data\<close> is the empty sequence of clauses.
\<close>

definition meta :: "'f env \<Rightarrow> APIClient \<Rightarrow> APIObject \<Rightarrow> 'f outcome" where
  "meta ev client self =
    (case obj_command self of
       None \<Rightarrow>
         \<lparr> out_self = self, out_client = client, out_printed = [], out_sent = [],
           out_result =
             Inl (Exn TypeError
               (''unsupported operand type(s) for +: '' @ squote @ ''NoneType'' @ squote
                  @ '' and '' @ squote @ ''str'' @ squote)) \<rparr>
     | Some c \<Rightarrow>
         (let command = c @ ''/meta'';
              query = call ev client command []
          in \<lparr> out_self = self, out_client = call_client query, out_printed = [],
               out_sent = call_sent query,
               out_result =
                 (case call_result query of
                    Inl err \<Rightarrow> Inl err
                  | Inr r \<Rightarrow> as_collection ev r) \<rparr>))"

section \<open>The rating enumeration: \<^verbatim>\<open>ESRB\<close>\<close>

datatype ESRB = RP | EC | E | E10plus | T | M | AO

fun ESRB_value :: "ESRB \<Rightarrow> int" where
  "ESRB_value RP = 1"
| "ESRB_value EC = 2"
| "ESRB_value E = 3"
| "ESRB_value E10plus = 4"
| "ESRB_value T = 5"
| "ESRB_value M = 6"
| "ESRB_value AO = 7"

text \<open>\<^verbatim>\<open>ESRB.__str__\<close> returns \<^verbatim>\<open>self.value\<close>, an integer.\<close>

definition ESRB_str :: "ESRB \<Rightarrow> 'f pyval" where
  "ESRB_str self = PInt (ESRB_value self)"

text \<open>
  The built-in \<^verbatim>\<open>str(x)\<close> calls the \<^verbatim>\<open>__str__\<close> method of \<^verbatim>\<open>x\<close> and raises
  \<^verbatim>\<open>TypeError\<close> unless the method returns a string.
\<close>

fun type_name :: "'f pyval \<Rightarrow> string" where
  "type_name PNone = ''NoneType''"
| "type_name (PBool b) = ''bool''"
| "type_name (PInt i) = ''int''"
| "type_name (PFloat x) = ''float''"
| "type_name (PStr s) = ''str''"
| "type_name (PList xs) = ''list''"
| "type_name (PNamespace d) = ''Namespace''"

definition builtin_str :: "('a \<Rightarrow> 'f pyval) \<Rightarrow> 'a \<Rightarrow> exn + string" where
  "builtin_str str_method x =
    (case str_method x of
       PStr s \<Rightarrow> Inr s
     | v \<Rightarrow> Inl (Exn TypeError (''__str__ returned non-string (type '' @ type_name v @ '')'')))"

section \<open>The decoded value as the specification describes it\<close>

text \<open>
  Section 4.3 of the specification: every JSON object becomes a record, arrays stay
  sequences in their order, scalars are unchanged. \<open>mirror\<close> is that value;
  \<open>self_free\<close> holds of a JSON value none of whose objects has a field named \<^verbatim>\<open>self\<close>.
\<close>

fun self_free :: "'f json \<Rightarrow> bool" where
  "self_free (JArr xs) = list_all self_free xs"
| "self_free (JObj kvs) =
     (''self'' \<notin> set (map fst kvs) \<and> list_all (\<lambda>kv. self_free (snd kv)) kvs)"
| "self_free j = True"

fun mirror :: "'f json \<Rightarrow> 'f pyval" where
  "mirror JNull = PNone"
| "mirror (JBool b) = PBool b"
| "mirror (JInt i) = PInt i"
| "mirror (JFloat x) = PFloat x"
| "mirror (JStr s) = PStr s"
| "mirror (JArr xs) = PList (map mirror xs)"
| "mirror (JObj kvs) = PNamespace (dict_of_pairs (map (\<lambda>kv. (fst kv, mirror (snd kv))) kvs))"

section \<open>The clause list as the specification describes it\<close>

text \<open>
  Section 4.1 of the specification lists nine clauses, each present or absent on its own.
  Each definition below is one of them: the empty list when the clause is left out, the
  clause alone otherwise.
\<close>

definition clause_if :: "bool \<Rightarrow> string \<Rightarrow> string list" where
  "clause_if b c = (if b then [c] else [])"

definition fields_clause :: "find_args \<Rightarrow> string list" where
  "fields_clause a = [''fields '' @ fields_text (fields_kw a)]"

definition exclude_clause :: "find_args \<Rightarrow> string list" where
  "exclude_clause a = clause_if (exclude a \<noteq> []) (''exclude '' @ exclude a)"

definition search_clause :: "find_args \<Rightarrow> string list" where
  "search_clause a = clause_if (search a \<noteq> []) (''search '' @ dquote @ search a @ dquote)"

definition id_clause :: "find_args \<Rightarrow> string list" where
  "id_clause a = (case entity_id a of None \<Rightarrow> [] | Some i \<Rightarrow> [''where id = '' @ int_str i])"

definition name_clause :: "find_args \<Rightarrow> string list" where
  "name_clause a = clause_if (name a \<noteq> []) (''where name = '' @ dquote @ name a @ dquote)"

definition slug_clause :: "find_args \<Rightarrow> string list" where
  "slug_clause a = clause_if (slug a \<noteq> []) (''where slug = '' @ dquote @ slug a @ dquote)"

definition filters_clause :: "find_args \<Rightarrow> string list" where
  "filters_clause a = clause_if (filters a \<noteq> []) (filters a)"

definition limit_clause :: "find_args \<Rightarrow> string list" where
  "limit_clause a = clause_if (limit a \<noteq> 0) (''limit '' @ int_str (min (limit a) 500))"

definition sort_clause :: "find_args \<Rightarrow> string list" where
  "sort_clause a = clause_if (sort_kw a \<noteq> []) (''sort '' @ sort_kw a)"

text \<open>
  A fixed reader, transport and client for the concrete instances below: the reader knows
  four texts, the transport answers every request with status 200 and the text \<^verbatim>\<open>[]\<close>.
\<close>

definition example_loads :: "string \<Rightarrow> exn + unit json" where
  "example_loads t =
    (if t = ''[]'' then Inr (JArr [])
     else if t = ''[{'' @ dquote @ ''id'' @ dquote @ '':1}]''
       then Inr (JArr [JObj [(''id'', JInt 1)]])
     else if t = ''[{'' @ dquote @ ''id'' @ dquote @ '':1},{'' @ dquote @ ''id'' @ dquote
                   @ '':2}]''
       then Inr (JArr [JObj [(''id'', JInt 1)], JObj [(''id'', JInt 2)]])
     else if t = ''{'' @ dquote @ ''id'' @ dquote @ '':1}''
       then Inr (JObj [(''id'', JInt 1)])
     else Inl (Exn ValueError ''Expecting value''))"

definition example_env :: "unit env" where
  "example_env =
     \<lparr> post = (\<lambda>r. Inr \<lparr> status_code = 200, resp_text = ''[]'' \<rparr>),
       check = (\<lambda>r. None),
       loads = example_loads \<rparr>"

definition example_client :: APIClient where
  "example_client =
     \<lparr> api_key = ''key'', client_command = None, client_data = None,
       headers = [(''Accept'', ''application/json; charset=UTF-8''), (''user-key'', ''key'')] \<rparr>"

section \<open>Decimal texts and unfolding rules used below\<close>

lemmas clause_defs =
  clause_if_def fields_clause_def exclude_clause_def search_clause_def id_clause_def
  name_clause_def slug_clause_def filters_clause_def limit_clause_def sort_clause_def

lemma int_str_500: "int_str 500 = ''500''"
  by (simp add: int_str_def nat_str.simps digit_char_def)

lemma int_str_0: "int_str 0 = ''0''"
  by (simp add: int_str_def nat_str.simps digit_char_def)

section \<open>The clause list of \<^verbatim>\<open>find\<close>\<close>

lemma find_data_clauses:
  "fst (find_data a) =
     fields_clause a @ exclude_clause a @ search_clause a @ id_clause a @ name_clause a
       @ slug_clause a @ filters_clause a @ limit_clause a @ sort_clause a"
proof -
  have grow: "\<And>b (d :: string list) c. (if b then d @ [c] else d) = d @ clause_if b c"
    by (simp add: clause_if_def)
  have grow_id: "\<And>(d :: string list) f x.
      (case x of Some i \<Rightarrow> d @ [f i] | None \<Rightarrow> d) =
      d @ (case x of None \<Rightarrow> [] | Some i \<Rightarrow> [f i])"
    by (simp split: option.split)
  have lim: "\<And>(d :: string list) l w.
      (if l \<noteq> 0 then (if 500 < l then (d @ [''limit '' @ int_str 500], [w])
                        else (d @ [''limit '' @ int_str l], []))
       else (d, [])) =
      (d @ clause_if (l \<noteq> 0) (''limit '' @ int_str (min l 500)),
       if 500 < l then [w] else [])"
    by (simp add: clause_if_def min_def)
  show ?thesis
    unfolding find_data_def Let_def grow grow_id lim
    by (simp add: fields_clause_def exclude_clause_def search_clause_def id_clause_def
        name_clause_def slug_clause_def filters_clause_def limit_clause_def sort_clause_def
        split del: if_split)
qed

lemma find_data_printed:
  "snd (find_data a) =
     (if 500 < limit a
      then [''Limit ('' @ int_str (limit a) @ '') set to maximum allowed (500).'']
      else [])"
  by (simp add: find_data_def Let_def split: option.split)

lemma find_Some:
  "entity a = Some e \<Longrightarrow>
   find ev client self a =
     \<lparr> out_self = self\<lparr>obj_command := Some (e @ ''/'')\<rparr>,
       out_client = call_client (call ev client (e @ ''/'') (fst (find_data a))),
       out_printed = snd (find_data a),
       out_sent = call_sent (call ev client (e @ ''/'') (fst (find_data a))),
       out_result =
         (case call_result (call ev client (e @ ''/'') (fst (find_data a))) of
            Inl err \<Rightarrow> Inl err
          | Inr r \<Rightarrow> (if one_kw a then as_single_result ev r else as_collection ev r)) \<rparr>"
  by (simp add: find_def Let_def split: prod.split)

text \<open>
  Claim C1. A call of \<^verbatim>\<open>find\<close> with a non-empty entity builds a clause list that starts with
  the fields clause, always present, and continues with the exclude, search, id, name,
  slug, filters, limit and sort clauses in this order, each one present exactly when its
  argument is non-empty, non-zero or set (the limit clause carries the limit after the
  clamp at 500); this list is what the call hands to the client.
\<close>

theorem find_clause_order:
  assumes "entity a = Some e" and "e \<noteq> []"
  shows "fst (find_data a) =
           fields_clause a @ exclude_clause a @ search_clause a @ id_clause a @ name_clause a
             @ slug_clause a @ filters_clause a @ limit_clause a @ sort_clause a
         \<and> hd (fst (find_data a)) = ''fields '' @ fields_text (fields_kw a)
         \<and> out_sent (find ev client self a) =
             call_sent (call ev client (e @ ''/'')
               (fields_clause a @ exclude_clause a @ search_clause a @ id_clause a
                  @ name_clause a @ slug_clause a @ filters_clause a @ limit_clause a
                  @ sort_clause a))"
proof -
  have "hd (fst (find_data a)) = ''fields '' @ fields_text (fields_kw a)"
    by (simp add: find_data_clauses fields_clause_def)
  moreover have "out_sent (find ev client self a) =
      call_sent (call ev client (e @ ''/'') (fst (find_data a)))"
    using assms(1) by (simp add: find_Some)
  ultimately show ?thesis
    by (simp add: find_data_clauses)
qed

theorem find_clause_order_witness:
  "entity (default_args\<lparr>entity := Some ''game'', fields_kw := FieldsList [''id'', ''name''],
       exclude := ''slug'', search := ''zelda'', entity_id := Some 0, name := ''Zelda'',
       slug := ''zelda'', filters := ''where rating > 80'', limit := 10,
       sort_kw := ''name asc''\<rparr>) = Some ''game''
   \<and> ''game'' \<noteq> []
   \<and> fst (find_data (default_args\<lparr>entity := Some ''game'',
         fields_kw := FieldsList [''id'', ''name''], exclude := ''slug'', search := ''zelda'',
         entity_id := Some 0, name := ''Zelda'', slug := ''zelda'',
         filters := ''where rating > 80'', limit := 10, sort_kw := ''name asc''\<rparr>)) =
       [''fields id,name'', ''exclude slug'', ''search '' @ dquote @ ''zelda'' @ dquote,
        ''where id = 0'', ''where name = '' @ dquote @ ''Zelda'' @ dquote,
        ''where slug = '' @ dquote @ ''zelda'' @ dquote, ''where rating > 80'', ''limit 10'',
        ''sort name asc'']"
  using find_clause_order [of "default_args\<lparr>entity := Some ''game'',
         fields_kw := FieldsList [''id'', ''name''], exclude := ''slug'', search := ''zelda'',
         entity_id := Some 0, name := ''Zelda'', slug := ''zelda'',
         filters := ''where rating > 80'', limit := 10, sort_kw := ''name asc''\<rparr>" "''game''"
         example_env example_client "APIObject_init ''Game''"]
  by (simp add: default_args_def clause_defs fields_text_def int_str_def nat_str.simps
      digit_char_def)

section \<open>The limit clause and its warning\<close>

lemma limit_clause_cases:
  "500 < limit a \<Longrightarrow> limit_clause a = [''limit 500'']"
  "limit a = 500 \<Longrightarrow> limit_clause a = [''limit 500'']"
  "limit a = 0 \<Longrightarrow> limit_clause a = []"
  by (simp_all add: limit_clause_def clause_if_def min_def int_str_500)

lemma clauses_limit_update:
  "fields_clause (a\<lparr>limit := l\<rparr>) = fields_clause a"
  "exclude_clause (a\<lparr>limit := l\<rparr>) = exclude_clause a"
  "search_clause (a\<lparr>limit := l\<rparr>) = search_clause a"
  "id_clause (a\<lparr>limit := l\<rparr>) = id_clause a"
  "name_clause (a\<lparr>limit := l\<rparr>) = name_clause a"
  "slug_clause (a\<lparr>limit := l\<rparr>) = slug_clause a"
  "filters_clause (a\<lparr>limit := l\<rparr>) = filters_clause a"
  "sort_clause (a\<lparr>limit := l\<rparr>) = sort_clause a"
  by (simp_all add: clause_defs)

lemma find_data_clamped:
  assumes "500 < limit a"
  shows "fst (find_data a) = fst (find_data (a\<lparr>limit := 500\<rparr>))"
proof -
  have "limit_clause (a\<lparr>limit := 500\<rparr>) = [''limit 500'']"
    by (simp add: limit_clause_cases(2))
  with assms show ?thesis
    by (simp add: find_data_clauses clauses_limit_update limit_clause_cases(1))
qed

text \<open>
  Claim C4. In a call of \<^verbatim>\<open>find\<close>, a limit above 500 gives the clause \<^verbatim>\<open>limit 500\<close>, prints
  one warning line, and otherwise proceeds exactly as the same call with limit 500 does
  (the same request, the same result), so the clamp raises nothing; a limit of 500 gives
  \<^verbatim>\<open>limit 500\<close> and prints nothing; a limit of 0 gives no limit clause and prints nothing.
\<close>

theorem find_limit_clamp:
  assumes "entity a = Some e"
  shows "(500 < limit a \<longrightarrow>
            fst (find_data a) =
              fields_clause a @ exclude_clause a @ search_clause a @ id_clause a
                @ name_clause a @ slug_clause a @ filters_clause a @ [''limit 500'']
                @ sort_clause a
          \<and> out_printed (find ev client self a) =
              [''Limit ('' @ int_str (limit a) @ '') set to maximum allowed (500).'']
          \<and> out_sent (find ev client self a) =
              out_sent (find ev client self (a\<lparr>limit := 500\<rparr>))
          \<and> out_result (find ev client self a) =
              out_result (find ev client self (a\<lparr>limit := 500\<rparr>)))
       \<and> (limit a = 500 \<longrightarrow>
            fst (find_data a) =
              fields_clause a @ exclude_clause a @ search_clause a @ id_clause a
                @ name_clause a @ slug_clause a @ filters_clause a @ [''limit 500'']
                @ sort_clause a
          \<and> out_printed (find ev client self a) = [])
       \<and> (limit a = 0 \<longrightarrow>
            fst (find_data a) =
              fields_clause a @ exclude_clause a @ search_clause a @ id_clause a
                @ name_clause a @ slug_clause a @ filters_clause a @ sort_clause a
          \<and> out_printed (find ev client self a) = [])"
proof -
  have printed: "out_printed (find ev client self a) = snd (find_data a)"
    using assms by (simp add: find_Some)
  have big: "500 < limit a \<Longrightarrow> ?thesis"
  proof -
    assume l: "500 < limit a"
    have ent: "entity (a\<lparr>limit := 500\<rparr>) = Some e"
      using assms by simp
    have "find ev client self a =
            (find ev client self (a\<lparr>limit := 500\<rparr>))\<lparr>out_printed := snd (find_data a)\<rparr>"
      by (simp add: find_Some [OF assms] find_Some [OF ent] find_data_clamped [OF l]
          split: sum.split)
    then have same: "out_sent (find ev client self a) =
                       out_sent (find ev client self (a\<lparr>limit := 500\<rparr>))"
         "out_result (find ev client self a) =
            out_result (find ev client self (a\<lparr>limit := 500\<rparr>))"
      by simp_all
    from l same show ?thesis
      by (simp add: printed find_data_printed find_data_clauses limit_clause_cases(1))
  qed
  have eq: "limit a = 500 \<Longrightarrow> ?thesis"
    by (simp add: printed find_data_printed find_data_clauses limit_clause_cases(2))
  have zero: "limit a = 0 \<Longrightarrow> ?thesis"
    by (simp add: printed find_data_printed find_data_clauses limit_clause_cases(3))
  have other: "\<not> 500 < limit a \<Longrightarrow> limit a \<noteq> 500 \<Longrightarrow> limit a \<noteq> 0 \<Longrightarrow> ?thesis"
    by simp
  from big eq zero other show ?thesis by blast
qed

theorem find_limit_clamp_witness:
  "entity (default_args\<lparr>entity := Some ''game'', limit := 501\<rparr>) = Some ''game''
   \<and> 500 < limit (default_args\<lparr>entity := Some ''game'', limit := 501\<rparr>)
   \<and> fst (find_data (default_args\<lparr>entity := Some ''game'', limit := 501\<rparr>)) =
       [''fields *'', ''limit 500'']
   \<and> out_printed (find example_env example_client (APIObject_init ''Game'')
         (default_args\<lparr>entity := Some ''game'', limit := 501\<rparr>)) =
       [''Limit (501) set to maximum allowed (500).'']
   \<and> out_result (find example_env example_client (APIObject_init ''Game'')
         (default_args\<lparr>entity := Some ''game'', limit := 501\<rparr>)) = Inr (PList [])
   \<and> limit (default_args\<lparr>entity := Some ''game'', limit := 500\<rparr>) = 500
   \<and> fst (find_data (default_args\<lparr>entity := Some ''game'', limit := 500\<rparr>)) =
       [''fields *'', ''limit 500'']
   \<and> out_printed (find example_env example_client (APIObject_init ''Game'')
         (default_args\<lparr>entity := Some ''game'', limit := 500\<rparr>)) = []
   \<and> limit (default_args\<lparr>entity := Some ''game''\<rparr>) = 0
   \<and> fst (find_data (default_args\<lparr>entity := Some ''game''\<rparr>)) = [''fields *'']
   \<and> out_printed (find example_env example_client (APIObject_init ''Game'')
         (default_args\<lparr>entity := Some ''game''\<rparr>)) = []"
proof -
  have r500: "out_result (find example_env example_client (APIObject_init ''Game'')
                (default_args\<lparr>entity := Some ''game'', limit := 500\<rparr>)) = Inr (PList [])"
    by (simp add: find_Some default_args_def call_def example_env_def example_loads_def
        Let_def as_collection_def json_response_def json2obj_def)
  have i501: "int_str 501 = ''501''"
    by (simp add: int_str_def nat_str.simps digit_char_def)
  show ?thesis
    using find_limit_clamp [of "default_args\<lparr>entity := Some ''game'', limit := 501\<rparr>"
        "''game''" example_env example_client "APIObject_init ''Game''"]
      find_limit_clamp [of "default_args\<lparr>entity := Some ''game'', limit := 500\<rparr>"
        "''game''" example_env example_client "APIObject_init ''Game''"]
      find_limit_clamp [of "default_args\<lparr>entity := Some ''game''\<rparr>"
        "''game''" example_env example_client "APIObject_init ''Game''"]
      r500
    by (simp add: default_args_def clause_defs fields_text_def i501)
qed

section \<open>The id clause\<close>

text \<open>
  Claim C5. A call of \<^verbatim>\<open>find\<close> with \<^verbatim>\<open>entity_id = 0\<close> has the clause \<^verbatim>\<open>where id = 0\<close>
  in its clause list, after the fields, exclude and search clauses and before the others,
  and hands that list to the client; with \<^verbatim>\<open>entity_id\<close> left at \<^verbatim>\<open>None\<close> the list is the
  same without that clause. The id 0 is a value, not the placeholder.
\<close>

theorem find_id_zero:
  "fst (find_data (a\<lparr>entity_id := Some 0\<rparr>)) =
     fields_clause a @ exclude_clause a @ search_clause a @ [''where id = 0'']
       @ name_clause a @ slug_clause a @ filters_clause a @ limit_clause a @ sort_clause a
   \<and> fst (find_data (a\<lparr>entity_id := None\<rparr>)) =
     fields_clause a @ exclude_clause a @ search_clause a
       @ name_clause a @ slug_clause a @ filters_clause a @ limit_clause a @ sort_clause a
   \<and> out_sent (find ev client self (a\<lparr>entity := Some e, entity_id := Some 0\<rparr>)) =
     call_sent (call ev client (e @ ''/'')
       (fields_clause a @ exclude_clause a @ search_clause a @ [''where id = 0'']
          @ name_clause a @ slug_clause a @ filters_clause a @ limit_clause a
          @ sort_clause a))"
proof -
  have upd: "\<And>x. fields_clause (a\<lparr>entity_id := x\<rparr>) = fields_clause a"
    "\<And>x. exclude_clause (a\<lparr>entity_id := x\<rparr>) = exclude_clause a"
    "\<And>x. search_clause (a\<lparr>entity_id := x\<rparr>) = search_clause a"
    "\<And>x. name_clause (a\<lparr>entity_id := x\<rparr>) = name_clause a"
    "\<And>x. slug_clause (a\<lparr>entity_id := x\<rparr>) = slug_clause a"
    "\<And>x. filters_clause (a\<lparr>entity_id := x\<rparr>) = filters_clause a"
    "\<And>x. limit_clause (a\<lparr>entity_id := x\<rparr>) = limit_clause a"
    "\<And>x. sort_clause (a\<lparr>entity_id := x\<rparr>) = sort_clause a"
    by (simp_all add: clause_defs)
  have some: "id_clause (a\<lparr>entity_id := Some 0\<rparr>) = [''where id = 0'']"
    by (simp add: id_clause_def int_str_0)
  have none: "id_clause (a\<lparr>entity_id := None\<rparr>) = []"
    by (simp add: id_clause_def)
  have d0: "fst (find_data (a\<lparr>entity_id := Some 0\<rparr>)) =
     fields_clause a @ exclude_clause a @ search_clause a @ [''where id = 0'']
       @ name_clause a @ slug_clause a @ filters_clause a @ limit_clause a @ sort_clause a"
    by (simp add: find_data_clauses upd some)
  have dn: "fst (find_data (a\<lparr>entity_id := None\<rparr>)) =
     fields_clause a @ exclude_clause a @ search_clause a
       @ name_clause a @ slug_clause a @ filters_clause a @ limit_clause a @ sort_clause a"
    by (simp add: find_data_clauses upd none)
  have "fst (find_data (a\<lparr>entity := Some e, entity_id := Some 0\<rparr>)) =
     fields_clause a @ exclude_clause a @ search_clause a @ [''where id = 0'']
       @ name_clause a @ slug_clause a @ filters_clause a @ limit_clause a @ sort_clause a"
    by (simp add: find_data_clauses [of "a\<lparr>entity := Some e, entity_id := Some 0\<rparr>"]
        clause_defs int_str_0)
  then have "out_sent (find ev client self (a\<lparr>entity := Some e, entity_id := Some 0\<rparr>)) =
     call_sent (call ev client (e @ ''/'')
       (fields_clause a @ exclude_clause a @ search_clause a @ [''where id = 0'']
          @ name_clause a @ slug_clause a @ filters_clause a @ limit_clause a
          @ sort_clause a))"
    by (simp add: find_Some)
  with d0 dn show ?thesis by simp
qed

section \<open>The request of \<^verbatim>\<open>call\<close>\<close>

lemma call_sent_eq:
  "call_sent (call ev c command data) =
     [\<lparr> url = V3_ENDPOINT @ command,
        body = (if data \<noteq> [] then join ''; '' data @ '';'' else ''''),
        req_headers = headers c, allow_redirects = False \<rparr>]"
  by (simp add: call_def Let_def client_str_def)

lemma call_keeps_headers:
  "headers (call_client (call ev c command data)) = headers c"
  by (simp add: call_def Let_def)

lemma calls_keep_headers:
  "headers (foldl (\<lambda>c (cmd, d). call_client (call ev c cmd d)) c0 earlier) = headers c0"
  by (induction earlier arbitrary: c0) (simp_all add: call_keeps_headers split: prod.split)

text \<open>
  Claim C7. On a client constructed with the key \<open>k\<close>, after any earlier calls, a call
  \<^verbatim>\<open>call(command, data)\<close> hands exactly one request to the transport: a POST to the
  endpoint root followed by the command, whose body is the clauses joined by \<^verbatim>\<open>"; "\<close> with
  one \<^verbatim>\<open>;\<close> appended when there is a clause and the empty string when there is none, with the
  headers \<^verbatim>\<open>Accept: application/json; charset=UTF-8\<close> and \<^verbatim>\<open>user-key: k\<close>, and with
  redirects not followed.
\<close>

theorem call_request:
  assumes "APIClient_init (Some k) = Inr c0"
  shows "call_sent (call ev (foldl (\<lambda>c (cmd, d). call_client (call ev c cmd d)) c0 earlier)
             command data) =
           [\<lparr> url = ''https://api-v3.igdb.com/'' @ command,
              body = (if data = [] then '''' else join ''; '' data @ '';''),
              req_headers =
                [(''Accept'', ''application/json; charset=UTF-8''), (''user-key'', k)],
              allow_redirects = False \<rparr>]"
proof -
  from assms have "headers c0 =
      [(''Accept'', ''application/json; charset=UTF-8''), (''user-key'', k)]"
    by (auto simp: APIClient_init_def)
  then show ?thesis
    by (simp add: call_sent_eq calls_keep_headers V3_ENDPOINT_def)
qed

theorem call_request_witness:
  "APIClient_init (Some ''key'') = Inr example_client
   \<and> call_sent (call example_env
         (foldl (\<lambda>c (cmd, d). call_client (call example_env c cmd d)) example_client
            [(''game/'', [''fields *''])])
         ''platform/'' [''fields id,name'', ''limit 10'']) =
       [\<lparr> url = ''https://api-v3.igdb.com/platform/'',
          body = ''fields id,name; limit 10;'',
          req_headers =
            [(''Accept'', ''application/json; charset=UTF-8''), (''user-key'', ''key'')],
          allow_redirects = False \<rparr>]
   \<and> call_sent (call example_env example_client ''game/meta'' []) =
       [\<lparr> url = ''https://api-v3.igdb.com/game/meta'', body = '''',
          req_headers =
            [(''Accept'', ''application/json; charset=UTF-8''), (''user-key'', ''key'')],
          allow_redirects = False \<rparr>]"
proof -
  have init: "APIClient_init (Some ''key'') = Inr example_client"
    by (simp add: APIClient_init_def example_client_def)
  show ?thesis
    using init
      call_request [OF init, of example_env "[(''game/'', [''fields *''])]" "''platform/''"
        "[''fields id,name'', ''limit 10'']"]
      call_request [OF init, of example_env "[]" "''game/meta''" "[]"]
    by simp
qed

section \<open>Constructing the client\<close>

text \<open>
  Claim C9, as stated: constructing the client with no key fails with a
  \<^verbatim>\<open>ConfigurationError\<close>. The exception raised is the built-in \<^verbatim>\<open>ValueError\<close>.
\<close>

theorem APIClient_init_no_key_counterexample:
  "APIClient_init None = Inl (Exn ValueError ''You must set an API key.'')
   \<and> exn_class (Exn ValueError ''You must set an API key.'') \<noteq> ConfigurationError"
  by (simp add: APIClient_init_def)

text \<open>
  Claim C9, amended. Constructing the client with no key raises
  \<^verbatim>\<open>ValueError('You must set an API key.')\<close>; the constructor is a function of the key alone
  and sends no request. Constructing it with a key \<open>k\<close> succeeds and stores the key and the
  headers \<^verbatim>\<open>Accept\<close> and \<^verbatim>\<open>user-key\<close>.
\<close>

theorem APIClient_init_result:
  "APIClient_init None = Inl (Exn ValueError ''You must set an API key.'')
   \<and> APIClient_init (Some k) =
       Inr \<lparr> api_key = k, client_command = None, client_data = None,
             headers = [(''Accept'', ''application/json; charset=UTF-8''), (''user-key'', k)] \<rparr>"
  by (simp add: APIClient_init_def)

section \<open>The string conversion of \<^verbatim>\<open>ESRB\<close>\<close>

text \<open>
  Claim C10. For every member of \<^verbatim>\<open>ESRB\<close>, the built-in \<^verbatim>\<open>str\<close> raises \<^verbatim>\<open>TypeError\<close>:
  \<^verbatim>\<open>__str__\<close> returns the member's integer value, which is not a string.
\<close>

theorem ESRB_str_raises:
  "builtin_str ESRB_str m = Inl (Exn TypeError ''__str__ returned non-string (type int)'')
   \<and> ESRB_str m = PInt (ESRB_value m)"
  by (simp add: builtin_str_def ESRB_str_def)

section \<open>The single-result view\<close>

text \<open>
  Claim C2. Once the response text is decoded to a value \<open>v\<close>, \<^verbatim>\<open>as_single_result\<close>
  returns \<^verbatim>\<open>None\<close> when \<open>v\<close> is an empty list, the element when \<open>v\<close> is a list of one
  element, raises \<^verbatim>\<open>APIError\<close> with the count in its message when \<open>v\<close> is a longer list,
  and returns \<open>v\<close> itself when \<open>v\<close> is not a list.
\<close>

theorem as_single_result_cases:
  assumes "json_response ev r = Inr v"
  shows "(\<forall>xs. v = PList xs \<longrightarrow>
            (length xs = 0 \<longrightarrow> as_single_result ev r = Inr PNone)
          \<and> (length xs = 1 \<longrightarrow> as_single_result ev r = Inr (hd xs))
          \<and> (1 < length xs \<longrightarrow>
                as_single_result ev r =
                  Inl (Exn APIError
                    (''Expected single result, found '' @ int_str (int (length xs))))))
       \<and> ((\<forall>xs. v \<noteq> PList xs) \<longrightarrow> as_single_result ev r = Inr v)"
proof (cases v)
  case (PList xs)
  then show ?thesis
    using assms by (cases xs) (auto simp: as_single_result_def)
qed (use assms in \<open>simp_all add: as_single_result_def\<close>)


lemma example_responses:
  "json_response example_env \<lparr> response = ''[]'' \<rparr> = Inr (PList [])"
  "json_response example_env \<lparr> response = ''[{'' @ dquote @ ''id'' @ dquote @ '':1}]'' \<rparr> =
     Inr (PList [PNamespace [(''id'', PInt 1)]])"
  "json_response example_env
     \<lparr> response = ''[{'' @ dquote @ ''id'' @ dquote @ '':1},{'' @ dquote @ ''id'' @ dquote
                     @ '':2}]'' \<rparr> =
     Inr (PList [PNamespace [(''id'', PInt 1)], PNamespace [(''id'', PInt 2)]])"
  "json_response example_env \<lparr> response = ''{'' @ dquote @ ''id'' @ dquote @ '':1}'' \<rparr> =
     Inr (PNamespace [(''id'', PInt 1)])"
  by (simp_all add: json_response_def json2obj_def example_env_def example_loads_def
      dquote_def json_object_hook_def dict_of_pairs_def)

theorem as_single_result_cases_witness:
  "json_response example_env \<lparr> response = ''[]'' \<rparr> = Inr (PList [])
   \<and> as_single_result example_env \<lparr> response = ''[]'' \<rparr> = Inr PNone
   \<and> as_single_result example_env
         \<lparr> response = ''[{'' @ dquote @ ''id'' @ dquote @ '':1}]'' \<rparr> =
       Inr (PNamespace [(''id'', PInt 1)])
   \<and> getattr (PNamespace [(''id'', PInt 1 :: unit pyval)]) ''id'' = Some (PInt 1)
   \<and> as_single_result example_env
         \<lparr> response = ''[{'' @ dquote @ ''id'' @ dquote @ '':1},{'' @ dquote @ ''id''
                         @ dquote @ '':2}]'' \<rparr> =
       Inl (Exn APIError ''Expected single result, found 2'')
   \<and> as_single_result example_env
         \<lparr> response = ''{'' @ dquote @ ''id'' @ dquote @ '':1}'' \<rparr> =
       Inr (PNamespace [(''id'', PInt 1)])"
proof -
  have i2: "int_str 2 = ''2''"
    by (simp add: int_str_def nat_str.simps digit_char_def)
  show ?thesis
    using as_single_result_cases [OF example_responses(1)]
      as_single_result_cases [OF example_responses(2)]
      as_single_result_cases [OF example_responses(3)]
      as_single_result_cases [OF example_responses(4)]
    by (simp add: example_responses(1) i2 getattr_def)
qed

section \<open>Equality of entities\<close>

text \<open>
  Claim C3 says that two instances of different concrete classes with the same numeric id
  compare unequal. \<^verbatim>\<open>__eq__\<close> compares the hashes and \<^verbatim>\<open>__hash__\<close> is the hash of the id
  alone, so two such instances compare equal, whatever the classes and the hash function
  are: here a \<^verbatim>\<open>Game\<close> and a \<^verbatim>\<open>Platform\<close> with id 7.
\<close>

theorem APIObject_eq_same_id:
  "APIObject_eq h (a\<lparr>cls := c1, obj_id := i\<rparr>) (b\<lparr>cls := c2, obj_id := i\<rparr>)
   \<and> \<not> APIObject_ne h (a\<lparr>cls := c1, obj_id := i\<rparr>) (b\<lparr>cls := c2, obj_id := i\<rparr>)
   \<and> APIObject_eq h \<lparr> cls = ''Game'', obj_command = None, obj_id = Some 7 \<rparr>
         \<lparr> cls = ''Platform'', obj_command = None, obj_id = Some 7 \<rparr>
   \<and> ''Game'' \<noteq> ''Platform''"
  by (simp add: APIObject_eq_def APIObject_ne_def APIObject_hash_def)

section \<open>The request of \<^verbatim>\<open>meta\<close>\<close>

lemma find_sets_command:
  "obj_command (out_self (find ev client self (a\<lparr>entity := Some e\<rparr>))) = Some (e @ ''/'')"
  by (simp add: find_Some)

text \<open>
  Claim C6 says that, once \<^verbatim>\<open>find\<close> has set the entity, \<^verbatim>\<open>meta\<close> requests the command
  path \<^verbatim>\<open><entity>/meta\<close>. \<^verbatim>\<open>find\<close> stores the entity followed by a slash and \<^verbatim>\<open>meta\<close>
  appends \<^verbatim>\<open>/meta\<close> to it, so the one request goes to \<^verbatim>\<open><entity>//meta\<close>; its body is empty
  and the result is the collection view of the response. After \<^verbatim>\<open>find(entity='game')\<close> the
  address is \<^verbatim>\<open>https://api-v3.igdb.com/game//meta\<close>.
\<close>

theorem meta_after_find:
  "out_sent (meta ev c2 (out_self (find ev c1 self (a\<lparr>entity := Some e\<rparr>)))) =
     [\<lparr> url = ''https://api-v3.igdb.com/'' @ e @ ''//meta'', body = '''',
        req_headers = headers c2, allow_redirects = False \<rparr>]
   \<and> out_result (meta ev c2 (out_self (find ev c1 self (a\<lparr>entity := Some e\<rparr>)))) =
       (case call_result (call ev c2 (e @ ''//meta'') []) of
          Inl err \<Rightarrow> Inl err
        | Inr r \<Rightarrow> as_collection ev r)
   \<and> map url (out_sent (meta ev c2
         (out_self (find ev c1 self (default_args\<lparr>entity := Some ''game''\<rparr>))))) =
       [''https://api-v3.igdb.com/game//meta'']
   \<and> ''https://api-v3.igdb.com/game//meta'' \<noteq> ''https://api-v3.igdb.com/game/meta''"
proof -
  have m: "meta ev c2 (out_self (find ev c1 self (x\<lparr>entity := Some y\<rparr>))) =
      \<lparr> out_self = out_self (find ev c1 self (x\<lparr>entity := Some y\<rparr>)),
        out_client = call_client (call ev c2 (y @ ''//meta'') []),
        out_printed = [],
        out_sent = call_sent (call ev c2 (y @ ''//meta'') []),
        out_result =
          (case call_result (call ev c2 (y @ ''//meta'') []) of
             Inl err \<Rightarrow> Inl err
           | Inr r \<Rightarrow> as_collection ev r) \<rparr>" for x y
    by (simp add: meta_def find_sets_command Let_def)
  show ?thesis
    by (simp add: m call_sent_eq V3_ENDPOINT_def)
qed

section \<open>Decoding a response\<close>

text \<open>
  A JSON value without a field named \<^verbatim>\<open>self\<close> is decoded to the value the specification
  describes, any other raises the \<^verbatim>\<open>TypeError\<close> of the hook; an attribute of a decoded
  object is the decoded value of the last field of that name.
\<close>

lemma all_ok_map_if:
  "all_ok (map (\<lambda>x. if P x then Inr (g x) else Inl e) xs) =
     (if list_all P xs then Inr (map g xs) else Inl e)"
  by (induction xs) simp_all

lemma map_of_foldl_update:
  "map_of (foldl (\<lambda>d (k, v). AList.update k v d) d0 ps) = map_of d0 ++ map_of (rev ps)"
proof (induction ps arbitrary: d0)
  case Nil
  show ?case by simp
next
  case (Cons p ps)
  obtain k v where p: "p = (k, v)" by (cases p)
  have "map_of (foldl (\<lambda>d (k, v). AList.update k v d) d0 (p # ps)) =
          map_of (AList.update k v d0) ++ map_of (rev ps)"
    by (simp add: p Cons.IH)
  also have "\<dots> = map_of d0 ++ map_of (rev (p # ps))"
    by (simp add: p update_conv')
  finally show ?case .
qed

lemma map_of_dict_of_pairs: "map_of (dict_of_pairs ps) = map_of (rev ps)"
  by (simp add: dict_of_pairs_def map_of_foldl_update)

lemma keys_foldl_update:
  "fst ` set (foldl (\<lambda>d (k, v). AList.update k v d) d0 ps) = fst ` set d0 \<union> fst ` set ps"
proof (induction ps arbitrary: d0)
  case Nil
  show ?case by simp
next
  case (Cons p ps)
  obtain k v where p: "p = (k, v)" by (cases p)
  show ?case
    by (simp add: p Cons.IH dom_update)
qed

lemma keys_dict_of_pairs: "fst ` set (dict_of_pairs ps) = fst ` set ps"
  by (simp add: dict_of_pairs_def keys_foldl_update)

lemma map_of_map_snd:
  "map_of (map (\<lambda>kv. (fst kv, f (snd kv))) xs) k = map_option f (map_of xs k)"
  by (induction xs) simp_all

lemma hooked_cases:
  "hooked j = (if self_free j then Inr (mirror j) else Inl self_error)"
proof (induction j rule: hooked.induct)
  case (6 xs)
  have eq: "map hooked xs =
          map (\<lambda>x. if self_free x then Inr (mirror x) else Inl self_error) xs"
    by (rule map_cong) (simp_all add: 6)
  show ?case
    by (simp add: eq all_ok_map_if)
next
  case (7 kvs)
  have eq: "map (\<lambda>kv. with_key (fst kv) (hooked (snd kv))) kvs =
          map (\<lambda>kv. if self_free (snd kv) then Inr (fst kv, mirror (snd kv))
                     else Inl self_error) kvs"
    by (rule map_cong) (simp_all add: 7)
  show ?case
    by (simp add: eq all_ok_map_if json_object_hook_def keys_dict_of_pairs image_image)
qed simp_all

lemma json2obj_cases:
  "json2obj ev t =
     (case loads ev t of
        Inl e \<Rightarrow> Inl e
      | Inr j \<Rightarrow> (if self_free j then Inr (mirror j) else Inl self_error))"
  by (simp add: json2obj_def hooked_cases split: sum.split)

lemma getattr_mirror:
  "getattr (mirror (JObj kvs)) k = map_option mirror (map_of (rev kvs) k)"
proof -
  have "map_of (rev (map (\<lambda>kv. (fst kv, mirror (snd kv))) kvs)) k =
          map_option mirror (map_of (rev kvs) k)"
    by (simp add: rev_map map_of_map_snd)
  then show ?thesis
    by (simp add: getattr_def map_of_dict_of_pairs)
qed

text \<open>
  Claim C8 says that every JSON object of a response becomes a record with one attribute
  per field. The hook builds the record by \<^verbatim>\<open>Namespace(**d)\<close>, and an object with a field
  named \<^verbatim>\<open>self\<close> makes that call raise \<^verbatim>\<open>TypeError\<close>: the text \<^verbatim>\<open>{"self": 1}\<close> is not
  decoded, at the top level or nested in an array.
\<close>

theorem json2obj_self_field:
  "hooked (JObj [(''self'', JInt 1)]) =
     Inl (Exn TypeError
       (''Namespace.__init__() got multiple values for argument '' @ squote @ ''self''
          @ squote))
   \<and> json2obj (ev\<lparr>loads := (\<lambda>t. Inr (JObj [(''self'', JInt 1)]))\<rparr>) t =
     Inl (Exn TypeError
       (''Namespace.__init__() got multiple values for argument '' @ squote @ ''self''
          @ squote))
   \<and> json2obj (ev\<lparr>loads := (\<lambda>t. Inr (JArr [JObj [(''id'', JInt 1), (''self'', JNull)]]))\<rparr>) t =
     Inl (Exn TypeError
       (''Namespace.__init__() got multiple values for argument '' @ squote @ ''self''
          @ squote))"
  by (simp add: json2obj_def json_object_hook_def self_error_def dict_of_pairs_def)

end
